theory Spec2Isabelle
  imports Main "HOL-Library.Char_ord" "HOL-Library.List_Lexorder"
begin

section \<open>Values exchanged with the client\<close>

text \<open>
  Request bodies of \<^verbatim>\<open>src/server.js\<close> are JSON objects whose fields are read by
  destructuring. A field is modelled as a \<open>string option\<close>: \<open>None\<close> is an absent
  (\<^verbatim>\<open>undefined\<close>) or \<^verbatim>\<open>null\<close> field, \<open>Some s\<close> a string. The test \<^verbatim>\<open>!x\<close> of the
  source is \<open>\<not> truthy x\<close>: it holds for an absent field and for the empty string.

  A JavaScript string is a sequence of code units. A \<open>char\<close> of the model is the code
  unit of the same number, so \<open>CHR 0x41\<close> is the letter A and \<open>CHR 0xA0\<close> is the no-break
  space U+00A0; the strings of the model are the strings whose code units are below 256.
\<close>

definition truthy :: "string option \<Rightarrow> bool" where
  "truthy v = (case v of None \<Rightarrow> False | Some s \<Rightarrow> s \<noteq> [])"

text \<open>
  Response bodies are JSON values. An object is an association list in insertion order;
  the order in which a serialised object lists its keys is not part of the model.
\<close>

datatype json =
    JNull
  | JNum int
  | JStr string
  | JArr "json list"
  | JObj "(string \<times> json) list"

text \<open>
  What a handler does: it sends a response (\<^verbatim>\<open>res.status(c).json(b)\<close>, status 200 for a
  bare \<^verbatim>\<open>res.json(b)\<close>), or an exception escapes the callback and no response is sent.
\<close>

datatype outcome =
    Response nat json
  | Uncaught string

definition message :: "string \<Rightarrow> json" where
  "message m = JObj [(''message'', JStr m)]"

definition message_error :: "string \<Rightarrow> string \<Rightarrow> json" where
  "message_error m e = JObj [(''message'', JStr m), (''error'', JStr e)]"

section \<open>The relational store\<close>

text \<open>
  The three tables created by \<^verbatim>\<open>initializeDatabase\<close>. The timestamp columns are left
  out. Strings are compared exactly (a binary collation).
\<close>

record user =
  user_id :: int
  username :: string
  email :: string
  password :: string

record category =
  category_id :: int
  name :: string

record item =
  item_id :: int
  no :: int
  kategori :: string
  code_barang :: "string option"
  nama :: string
  serial_number :: "string option"
  tanggal :: "string option"
  lokasi :: "string option"
  asal_barang :: "string option"
  status :: "string option"
  ukuran :: "string option"
  keterangan :: "string option"
  created_by :: int

record db =
  users :: "user list"
  categories :: "category list"
  inventory :: "item list"
  next_item_id :: int

text \<open>
  A query of the source is \<^verbatim>\<open>db.query(sql, params, (err, result) => ...)\<close>. Whether the
  store can perform a query (lost connection, pool timeout, a value it rejects) is not
  decided by the program, so it is an input of the model: the \<open>fault\<close> of a query is
  \<open>None\<close> when the store performs it and \<open>Some e\<close> when the store reports the error
  \<open>e\<close> instead, leaving the tables as they are. The callback then receives \<open>Failed e\<close>
  (\<^verbatim>\<open>err\<close> set, \<^verbatim>\<open>result\<close> undefined) or \<open>Result r\<close> (\<^verbatim>\<open>err\<close> null).
\<close>

type_synonym fault = "string option"

datatype 'r query_result =
    Failed string
  | Result 'r

section \<open>Inventory: adding an item\<close>

record item_body =
  b_kategori :: "string option"
  b_codeBarang :: "string option"
  b_nama :: "string option"
  b_serialNumber :: "string option"
  b_tanggal :: "string option"
  b_lokasi :: "string option"
  b_asalBarang :: "string option"
  b_status :: "string option"
  b_ukuran :: "string option"
  b_keterangan :: "string option"

text \<open>\<^verbatim>\<open>SELECT MAX(no) as maxNo FROM inventory\<close>: one row, whose \<^verbatim>\<open>maxNo\<close> is NULL on an
  empty table.\<close>

fun max_no :: "int list \<Rightarrow> int option" where
  "max_no [] = None"
| "max_no (n # ns) = (case max_no ns of None \<Rightarrow> Some n | Some m \<Rightarrow> Some (max n m))"

definition select_max_no :: "fault \<Rightarrow> db \<Rightarrow> int option list query_result" where
  "select_max_no f s =
     (case f of Some e \<Rightarrow> Failed e
      | None \<Rightarrow> Result [max_no (map no (inventory s))])"

text \<open>\<^verbatim>\<open>(result[0]?.maxNo || 0) + 1\<close>. The error argument of the callback is not read.
  An undefined \<^verbatim>\<open>result\<close> makes \<^verbatim>\<open>result[0]\<close> throw a TypeError; \<^verbatim>\<open>?.\<close> guards only
  a missing first row; \<^verbatim>\<open>||\<close> replaces NULL and 0 by 0.\<close>

definition next_no :: "int option list query_result \<Rightarrow> string + int" where
  "next_no r =
     (case r of
        Failed e \<Rightarrow> Inl ''TypeError''
      | Result rows \<Rightarrow>
          Inr ((case rows of
                  [] \<Rightarrow> 0
                | row # _ \<Rightarrow> (case row of None \<Rightarrow> 0 | Some m \<Rightarrow> if m = 0 then 0 else m)) + 1))"

text \<open>\<^verbatim>\<open>INSERT INTO inventory (no, kategori, ..., created_by) VALUES (...)\<close>; the new row
  takes the table's next AUTO\_INCREMENT id, which is the \<^verbatim>\<open>insertId\<close> of the result.
  The columns \<^verbatim>\<open>kategori\<close> and \<^verbatim>\<open>nama\<close> are NOT NULL: the store refuses NULL there.\<close>

definition new_item :: "int \<Rightarrow> int \<Rightarrow> string \<Rightarrow> string \<Rightarrow> item_body \<Rightarrow> int \<Rightarrow> item" where
  "new_item i n k nm b uid =
     \<lparr> item_id = i, no = n, kategori = k, code_barang = b_codeBarang b, nama = nm,
       serial_number = b_serialNumber b, tanggal = b_tanggal b, lokasi = b_lokasi b,
       asal_barang = b_asalBarang b, status = b_status b, ukuran = b_ukuran b,
       keterangan = b_keterangan b, created_by = uid \<rparr>"

definition insert_item :: "fault \<Rightarrow> int \<Rightarrow> item_body \<Rightarrow> int \<Rightarrow> db \<Rightarrow> int query_result \<times> db" where
  "insert_item f n b uid s =
     (case f of Some e \<Rightarrow> (Failed e, s)
      | None \<Rightarrow>
          (case (b_kategori b, b_nama b) of
             (Some k, Some nm) \<Rightarrow>
               (Result (next_item_id s),
                s\<lparr> inventory := inventory s @ [new_item (next_item_id s) n k nm b uid],
                   next_item_id := next_item_id s + 1 \<rparr>)
           | _ \<Rightarrow> (Failed ''ER_BAD_NULL_ERROR'', s)))"

text \<open>
  The handler of \<^verbatim>\<open>POST /api/inventory\<close> runs in two callbacks. \<open>add_lookup\<close> is the part
  up to and including the first callback's computation of \<^verbatim>\<open>no\<close>: it answers 400 at once,
  lets the TypeError escape, or leaves the insert pending with the number it computed.
  \<open>add_insert\<close> is the insert and its callback. \<open>uid\<close> is \<^verbatim>\<open>req.user.id\<close>, set by the
  authentication middleware.
\<close>

datatype lookup = Done outcome | Pending int

definition add_lookup :: "fault \<Rightarrow> item_body \<Rightarrow> db \<Rightarrow> lookup" where
  "add_lookup f b s =
     (if \<not> truthy (b_nama b) \<or> \<not> truthy (b_kategori b)
      then Done (Response 400 (message ''Nama and kategori required''))
      else case next_no (select_max_no f s) of
             Inl ex \<Rightarrow> Done (Uncaught ex)
           | Inr n \<Rightarrow> Pending n)"

definition add_insert :: "fault \<Rightarrow> int \<Rightarrow> item_body \<Rightarrow> int \<Rightarrow> db \<Rightarrow> outcome \<times> db" where
  "add_insert f uid b n s =
     (case insert_item f n b uid s of
        (Failed e, s') \<Rightarrow> (Response 500 (message_error ''Error adding item'' e), s')
      | (Result i, s') \<Rightarrow>
          (Response 200 (JObj [(''message'', JStr ''Item added''), (''id'', JNum i), (''no'', JNum n)]),
           s'))"

text \<open>One request served with no other request in between.\<close>

definition add_item :: "fault \<Rightarrow> fault \<Rightarrow> int \<Rightarrow> item_body \<Rightarrow> db \<Rightarrow> outcome \<times> db" where
  "add_item f1 f2 uid b s =
     (case add_lookup f1 b s of
        Done out \<Rightarrow> (out, s)
      | Pending n \<Rightarrow> add_insert f2 uid b n s)"

text \<open>
  Several requests in flight. Node runs one callback at a time and the store one query at a
  time, but between the two queries of one request the queries of another may run. A
  \<open>task\<close> is what is left of a request; \<open>step\<close> runs its next query and the callback
  that follows; a schedule names, step by step, the request whose query the store runs
  next. The store performs every query here (no fault).
\<close>

datatype task = Queued | Awaiting int | Answered outcome

fun step :: "int \<times> item_body \<Rightarrow> task \<Rightarrow> db \<Rightarrow> task \<times> db" where
  "step (uid, b) Queued s =
     (case add_lookup None b s of Done out \<Rightarrow> (Answered out, s) | Pending n \<Rightarrow> (Awaiting n, s))"
| "step (uid, b) (Awaiting n) s =
     (case add_insert None uid b n s of (out, s') \<Rightarrow> (Answered out, s'))"
| "step (uid, b) (Answered out) s = (Answered out, s)"

fun run :: "nat list \<Rightarrow> (int \<times> item_body) list \<Rightarrow> task list \<Rightarrow> db \<Rightarrow> task list \<times> db" where
  "run [] reqs ts s = (ts, s)"
| "run (i # sched) reqs ts s =
     (if i < length reqs \<and> i < length ts
      then (case step (reqs ! i) (ts ! i) s of (t, s') \<Rightarrow> run sched reqs (ts[i := t]) s')
      else run sched reqs ts s)"

definition concurrent_adds :: "nat list \<Rightarrow> (int \<times> item_body) list \<Rightarrow> db \<Rightarrow> task list \<times> db" where
  "concurrent_adds sched reqs s = run sched reqs (replicate (length reqs) Queued) s"

text \<open>The schedule that serves request 0 to the end, then request 1, and so on.\<close>

definition serial :: "nat \<Rightarrow> nat list" where
  "serial n = concat (map (\<lambda>i. [i, i]) [0..<n])"

section \<open>Inventory: listing, updating\<close>

text \<open>\<^verbatim>\<open>SELECT id, no, ... FROM inventory ORDER BY no\<close> and the handler's mapping of each row
  to the object it sends.\<close>

definition nullable :: "string option \<Rightarrow> json" where
  "nullable v = (case v of None \<Rightarrow> JNull | Some x \<Rightarrow> JStr x)"

definition item_json :: "item \<Rightarrow> json" where
  "item_json r =
     JObj [(''id'', JNum (item_id r)), (''no'', JNum (no r)), (''kategori'', JStr (kategori r)),
           (''codeBarang'', nullable (code_barang r)), (''nama'', JStr (nama r)),
           (''serialNumber'', nullable (serial_number r)), (''tanggal'', nullable (tanggal r)),
           (''lokasi'', nullable (lokasi r)), (''asalBarang'', nullable (asal_barang r)),
           (''status'', nullable (status r)), (''ukuran'', nullable (ukuran r)),
           (''keterangan'', nullable (keterangan r))]"

definition list_items :: "fault \<Rightarrow> db \<Rightarrow> outcome" where
  "list_items f s =
     (case f of
        Some e \<Rightarrow> Response 500 (message_error ''Database error'' e)
      | None \<Rightarrow> Response 200 (JArr (map item_json (sort_key no (inventory s)))))"

text \<open>
  \<^verbatim>\<open>UPDATE inventory SET kategori=?, ..., keterangan=? WHERE id=?\<close>. An absent body field
  is sent as NULL; the store refuses to write NULL into \<^verbatim>\<open>kategori\<close> or \<^verbatim>\<open>nama\<close> of a
  row. A statement that matches no row writes nothing and is no error. The path
  parameter is taken as the number the store compares \<^verbatim>\<open>id\<close> with.
\<close>

definition set_fields :: "string \<Rightarrow> string \<Rightarrow> item_body \<Rightarrow> item \<Rightarrow> item" where
  "set_fields k nm b r =
     r\<lparr> kategori := k, code_barang := b_codeBarang b, nama := nm,
        serial_number := b_serialNumber b, tanggal := b_tanggal b, lokasi := b_lokasi b,
        asal_barang := b_asalBarang b, status := b_status b, ukuran := b_ukuran b,
        keterangan := b_keterangan b \<rparr>"

definition update_inventory :: "fault \<Rightarrow> int \<Rightarrow> item_body \<Rightarrow> db \<Rightarrow> unit query_result \<times> db" where
  "update_inventory f i b s =
     (case f of Some e \<Rightarrow> (Failed e, s)
      | None \<Rightarrow>
          if filter (\<lambda>r. item_id r = i) (inventory s) = [] then (Result (), s)
          else (case (b_kategori b, b_nama b) of
                  (Some k, Some nm) \<Rightarrow>
                    (Result (),
                     s\<lparr> inventory :=
                          map (\<lambda>r. if item_id r = i then set_fields k nm b r else r) (inventory s) \<rparr>)
                | _ \<Rightarrow> (Failed ''ER_BAD_NULL_ERROR'', s)))"

definition update_item :: "fault \<Rightarrow> int \<Rightarrow> item_body \<Rightarrow> db \<Rightarrow> outcome \<times> db" where
  "update_item f i b s =
     (case update_inventory f i b s of
        (Failed e, s') \<Rightarrow> (Response 500 (message_error ''Error updating item'' e), s')
      | (Result _, s') \<Rightarrow> (Response 200 (message ''Item updated''), s'))"

section \<open>Categories\<close>

text \<open>\<^verbatim>\<open>SELECT name FROM categories ORDER BY name\<close>.\<close>

definition list_categories :: "fault \<Rightarrow> db \<Rightarrow> outcome" where
  "list_categories f s =
     (case f of
        Some e \<Rightarrow> Response 500 (message_error ''Database error'' e)
      | None \<Rightarrow> Response 200 (JArr (map JStr (sort (map name (categories s))))))"

text \<open>
  \<^verbatim>\<open>String.prototype.trim\<close> removes white space and line terminators at both ends. Of the
  code units that ECMAScript counts as such (U+0009 to U+000D, U+0020, U+00A0, U+1680,
  U+2000 to U+200A, U+2028, U+2029, U+202F, U+205F, U+3000 and U+FEFF) those below 256
  are tab, line feed, vertical tab, form feed, carriage return, space and no-break space.
\<close>

definition is_space :: "char \<Rightarrow> bool" where
  "is_space c = (c \<in> {CHR 0x09, CHR 0x0A, CHR 0x0B, CHR 0x0C, CHR 0x0D, CHR 0x20, CHR 0xA0})"

definition trim :: "string \<Rightarrow> string" where
  "trim x = rev (dropWhile is_space (rev (dropWhile is_space x)))"

text \<open>
  \<^verbatim>\<open>UPDATE categories SET name = ? WHERE name = ?\<close>. \<^verbatim>\<open>name\<close> is UNIQUE: giving a row a
  name that another row holds is refused (and nothing is written).
\<close>

definition update_categories :: "fault \<Rightarrow> string \<Rightarrow> string \<Rightarrow> db \<Rightarrow> unit query_result \<times> db" where
  "update_categories f new old s =
     (case f of Some e \<Rightarrow> (Failed e, s)
      | None \<Rightarrow>
          if old \<in> set (map name (categories s)) \<and> new \<noteq> old \<and> new \<in> set (map name (categories s))
          then (Failed ''ER_DUP_ENTRY'', s)
          else (Result (),
                s\<lparr> categories :=
                     map (\<lambda>c. if name c = old then c\<lparr> name := new \<rparr> else c) (categories s) \<rparr>))"

text \<open>\<^verbatim>\<open>UPDATE inventory SET kategori = ? WHERE kategori = ?\<close>.\<close>

definition update_kategori :: "fault \<Rightarrow> string \<Rightarrow> string \<Rightarrow> db \<Rightarrow> unit query_result \<times> db" where
  "update_kategori f new old s =
     (case f of Some e \<Rightarrow> (Failed e, s)
      | None \<Rightarrow>
          (Result (),
           s\<lparr> inventory :=
                map (\<lambda>r. if kategori r = old then r\<lparr> kategori := new \<rparr> else r) (inventory s) \<rparr>))"

text \<open>\<^verbatim>\<open>PUT /api/categories/:oldName\<close>; \<open>oldName\<close> is the decoded path parameter,
  \<open>newName\<close> the body field. The two statements are sent one after the other, the second
  from the callback of the first; there is no transaction around them.\<close>

definition rename_category :: "fault \<Rightarrow> fault \<Rightarrow> string \<Rightarrow> string option \<Rightarrow> db \<Rightarrow> outcome \<times> db" where
  "rename_category f1 f2 oldName newName s =
     (case newName of
        None \<Rightarrow> (Response 400 (message ''New category name required''), s)
      | Some nn \<Rightarrow>
          if nn = [] \<or> trim nn = []
          then (Response 400 (message ''New category name required''), s)
          else (case update_categories f1 (trim nn) oldName s of
                  (Failed e, s1) \<Rightarrow> (Response 500 (message_error ''Error updating category'' e), s1)
                | (Result _, s1) \<Rightarrow>
                    (case update_kategori f2 (trim nn) oldName s1 of
                       (Failed e, s2) \<Rightarrow> (Response 500 (message ''Error updating items''), s2)
                     | (Result _, s2) \<Rightarrow>
                         (Response 200 (message ''Category updated successfully''), s2))))"

text \<open>\<^verbatim>\<open>DELETE /api/categories/:name\<close>: one statement, \<^verbatim>\<open>DELETE FROM categories WHERE name = ?\<close>.\<close>

definition delete_category :: "fault \<Rightarrow> string \<Rightarrow> db \<Rightarrow> outcome \<times> db" where
  "delete_category f nm s =
     (case f of
        Some e \<Rightarrow> (Response 500 (message ''Error deleting category''), s)
      | None \<Rightarrow>
          (Response 200 (message ''Category deleted''),
           s\<lparr> categories := filter (\<lambda>c. name c \<noteq> nm) (categories s) \<rparr>))"

section \<open>Statistics\<close>

text \<open>
  \<^verbatim>\<open>SELECT COUNT(*) as total FROM inventory\<close> gives one row. \<^verbatim>\<open>SELECT c, COUNT(*) as count
  FROM inventory GROUP BY c\<close> gives one row for each distinct value of the column, NULL
  being a value of its own, with the number of rows that hold it.
\<close>

definition select_count :: "fault \<Rightarrow> db \<Rightarrow> int list query_result" where
  "select_count f s = (case f of Some e \<Rightarrow> Failed e | None \<Rightarrow> Result [int (length (inventory s))])"

definition group_count :: "'a list \<Rightarrow> ('a \<times> int) list" where
  "group_count xs = map (\<lambda>k. (k, int (count_list xs k))) (remdups xs)"

definition select_by_status :: "fault \<Rightarrow> db \<Rightarrow> (string option \<times> int) list query_result" where
  "select_by_status f s =
     (case f of Some e \<Rightarrow> Failed e | None \<Rightarrow> Result (group_count (map status (inventory s))))"

definition select_by_kategori :: "fault \<Rightarrow> db \<Rightarrow> (string \<times> int) list query_result" where
  "select_by_kategori f s =
     (case f of Some e \<Rightarrow> Failed e | None \<Rightarrow> Result (group_count (map kategori (inventory s))))"

text \<open>
  \<^verbatim>\<open>acc[k] = v\<close> on an object that started as \<^verbatim>\<open>{}\<close>. The key is converted to a string:
  \<^verbatim>\<open>null\<close> becomes \<^verbatim>\<open>"null"\<close>. An existing key keeps its place and takes the new value,
  a new key is added. The key \<^verbatim>\<open>"__proto__"\<close> is the prototype accessor, which ignores a
  number: the object gets no property.
\<close>

definition property_key :: "string option \<Rightarrow> string" where
  "property_key k = (case k of None \<Rightarrow> ''null'' | Some x \<Rightarrow> x)"

fun put :: "string \<Rightarrow> json \<Rightarrow> (string \<times> json) list \<Rightarrow> (string \<times> json) list" where
  "put k v [] = [(k, v)]"
| "put k v (p # ps) = (if fst p = k then (k, v) # ps else p # put k v ps)"

definition assign :: "(string \<times> json) list \<Rightarrow> string \<Rightarrow> int \<Rightarrow> (string \<times> json) list" where
  "assign acc k c = (if k = ''__proto__'' then acc else put k (JNum c) acc)"

definition reduce :: "(string \<times> int) list \<Rightarrow> json" where
  "reduce rows = JObj (foldl (\<lambda>acc (k, c). assign acc k c) [] rows)"

text \<open>\<^verbatim>\<open>GET /api/stats\<close>: three queries, each sent from the callback of the one before;
  \<^verbatim>\<open>totalResult[0]?.total || 0\<close> is the count.\<close>

definition stats :: "fault \<Rightarrow> fault \<Rightarrow> fault \<Rightarrow> db \<Rightarrow> outcome" where
  "stats f1 f2 f3 s =
     (case select_count f1 s of
        Failed e \<Rightarrow> Response 500 (message ''Database error'')
      | Result totalResult \<Rightarrow>
          (case select_by_status f2 s of
             Failed e \<Rightarrow> Response 500 (message ''Database error'')
           | Result statusData \<Rightarrow>
               (case select_by_kategori f3 s of
                  Failed e \<Rightarrow> Response 500 (message ''Database error'')
                | Result categoryData \<Rightarrow>
                    Response 200
                      (JObj [(''total'', JNum (case totalResult of [] \<Rightarrow> 0 | n # _ \<Rightarrow> n)),
                             (''byStatus'', reduce (map (\<lambda>(k, c). (property_key k, c)) statusData)),
                             (''byCategory'', reduce categoryData)]))))"

text \<open>Reading a response: the value of a field of an object, the number of elements of an
  array, the sum of the numbers an object holds.\<close>

definition field :: "string \<Rightarrow> json \<Rightarrow> json option" where
  "field k j = (case j of JObj ps \<Rightarrow> map_of ps k | _ \<Rightarrow> None)"

definition body :: "outcome \<Rightarrow> json" where
  "body out = (case out of Response c j \<Rightarrow> j | Uncaught ex \<Rightarrow> JNull)"

definition code :: "outcome \<Rightarrow> nat option" where
  "code out = (case out of Response c j \<Rightarrow> Some c | Uncaught ex \<Rightarrow> None)"

definition count_elements :: "json \<Rightarrow> int" where
  "count_elements j = (case j of JArr xs \<Rightarrow> int (length xs) | _ \<Rightarrow> 0)"

definition number :: "json \<Rightarrow> int" where
  "number j = (case j of JNum n \<Rightarrow> n | _ \<Rightarrow> 0)"

definition sum_values :: "json option \<Rightarrow> int" where
  "sum_values j = (case j of Some (JObj ps) \<Rightarrow> sum_list (map (\<lambda>p. number (snd p)) ps) | _ \<Rightarrow> 0)"

section \<open>Login\<close>

text \<open>
  \<^verbatim>\<open>POST /api/auth/login\<close>. \<^verbatim>\<open>bcrypt.compareSync\<close>, \<^verbatim>\<open>jwt.sign\<close> and the secret are
  parameters: \<open>compareSync p h\<close> says whether password \<open>p\<close> matches hash \<open>h\<close>, and
  \<open>sign payload secret expiresIn\<close> is the token string. The query is
  \<^verbatim>\<open>SELECT * FROM users WHERE username = ?\<close>.
\<close>

definition select_user :: "fault \<Rightarrow> string \<Rightarrow> db \<Rightarrow> user list query_result" where
  "select_user f un s =
     (case f of Some e \<Rightarrow> Failed e | None \<Rightarrow> Result (filter (\<lambda>u. username u = un) (users s)))"

definition claims :: "user \<Rightarrow> json" where
  "claims u = JObj [(''id'', JNum (user_id u)), (''username'', JStr (username u)),
                    (''email'', JStr (email u))]"

definition login ::
  "(string \<Rightarrow> string \<Rightarrow> bool) \<Rightarrow> (json \<Rightarrow> string \<Rightarrow> string \<Rightarrow> string) \<Rightarrow> string \<Rightarrow> fault
     \<Rightarrow> string option \<Rightarrow> string option \<Rightarrow> db \<Rightarrow> outcome" where
  "login compareSync sign JWT_SECRET f un pw s =
     (case (un, pw) of
        (Some u, Some p) \<Rightarrow>
          if u = [] \<or> p = [] then Response 400 (message ''Username and password required'')
          else (case select_user f u s of
                  Failed e \<Rightarrow> Response 400 (message ''User not found'')
                | Result [] \<Rightarrow> Response 400 (message ''User not found'')
                | Result (user # _) \<Rightarrow>
                    if \<not> compareSync p (password user)
                    then Response 400 (message ''Invalid password'')
                    else Response 200
                           (JObj [(''message'', JStr ''Login successful''),
                                  (''token'', JStr (sign (claims user) JWT_SECRET ''24h'')),
                                  (''user'', claims user)]))
      | _ \<Rightarrow> Response 400 (message ''Username and password required''))"

section \<open>Example data\<close>

definition empty_db :: db where
  "empty_db = \<lparr> users = [], categories = [], inventory = [], next_item_id = 1 \<rparr>"

definition entry :: "string \<Rightarrow> string \<Rightarrow> string option \<Rightarrow> item_body" where
  "entry k nm st =
     \<lparr> b_kategori = Some k, b_codeBarang = None, b_nama = Some nm, b_serialNumber = None,
       b_tanggal = None, b_lokasi = None, b_asalBarang = None, b_status = st,
       b_ukuran = None, b_keterangan = None \<rparr>"

definition row :: "int \<Rightarrow> int \<Rightarrow> string \<Rightarrow> string \<Rightarrow> string option \<Rightarrow> item" where
  "row i n k nm st = new_item i n k nm (entry k nm st) 1"

definition shelf :: db where
  "shelf = \<lparr> users = [\<lparr> user_id = 1, username = ''sari'', email = ''sari@example.org'',
                          password = ''$2a$10$hash'' \<rparr>],
             categories = [\<lparr> category_id = 1, name = ''A'' \<rparr>, \<lparr> category_id = 2, name = ''C'' \<rparr>],
             inventory = [row 1 1 ''A'' ''Laptop A'' None, row 2 5 ''C'' ''Monitor'' (Some ''null'')],
             next_item_id = 3 \<rparr>"

text \<open>The catalog after two adds on the empty store: one item without a status, one
  whose status is the string \<^verbatim>\<open>null\<close>.\<close>

definition two_items :: db where
  "two_items =
     snd (add_item None None 1 (entry ''C'' ''Monitor'' (Some ''null''))
       (snd (add_item None None 1 (entry ''A'' ''Laptop A'' None) empty_db)))"

section \<open>Evaluation of the examples\<close>

lemmas add_defs =
  add_item_def add_lookup_def add_insert_def insert_item_def new_item_def next_no_def
  select_max_no_def truthy_def message_def message_error_def field_def

lemmas example_defs = entry_def row_def shelf_def empty_db_def

lemmas rename_defs =
  rename_category_def update_categories_def update_kategori_def
  trim_def is_space_def message_def message_error_def

lemmas stats_defs =
  stats_def select_count_def select_by_status_def select_by_kategori_def group_count_def
  reduce_def assign_def property_key_def list_items_def field_def body_def count_elements_def
  sum_values_def number_def item_json_def

section \<open>Numbering of new items\<close>

lemma max_no_Max: "ns \<noteq> [] \<Longrightarrow> max_no ns = Some (Max (set ns))"
proof (induction ns)
  case Nil
  then show ?case by simp
next
  case (Cons a ns)
  show ?case
  proof (cases "ns = []")
    case True
    then show ?thesis by simp
  next
    case False
    with Cons.IH have "max_no ns = Some (Max (set ns))" by simp
    with False show ?thesis by simp
  qed
qed

lemma add_lookup_valid:
  "truthy (b_nama b) \<Longrightarrow> truthy (b_kategori b) \<Longrightarrow>
     add_lookup None b s = Pending (case max_no (map no (inventory s)) of None \<Rightarrow> 1 | Some m \<Rightarrow> m + 1)"
  by (simp add: add_lookup_def next_no_def select_max_no_def split: option.splits)

lemma add_lookup_cases:
  "add_lookup f b s = Pending n \<Longrightarrow>
     truthy (b_nama b) \<and> truthy (b_kategori b) \<and> f = None
       \<and> n = (case max_no (map no (inventory s)) of None \<Rightarrow> 1 | Some m \<Rightarrow> m + 1)"
  by (auto simp: add_lookup_def next_no_def select_max_no_def
           split: option.splits if_splits sum.splits)

lemma add_insert_ok:
  "add_insert f uid b n s = (Response 200 j, s') \<Longrightarrow>
     (\<exists>r. inventory s' = inventory s @ [r] \<and> no r = n) \<and> field ''no'' j = Some (JNum n)"
  by (auto simp: add_insert_def insert_item_def new_item_def field_def message_error_def
           split: option.splits prod.splits query_result.splits)

lemma add_insert_valid:
  "truthy (b_nama b) \<Longrightarrow> truthy (b_kategori b) \<Longrightarrow>
     map no (inventory (snd (add_insert None uid b n s))) = map no (inventory s) @ [n]"
  by (auto simp: add_insert_def insert_item_def new_item_def truthy_def split: option.splits)

text \<open>
  C3. In every state of the catalog, an add that answers 200 has appended exactly one row
  whose \<open>no\<close> is the greatest \<open>no\<close> present before plus one, and 1 when the catalog was
  empty, and the response reports that number. When \<open>nama\<close> or \<open>kategori\<close> is absent or
  empty the answer is 400 and the state is the one before.
\<close>

theorem add_item_numbering:
  "(add_item f1 f2 uid b s = (Response 200 j, s') \<longrightarrow>
      (\<exists>r. inventory s' = inventory s @ [r]
          \<and> no r = (if inventory s = [] then 1 else Max (set (map no (inventory s))) + 1)
          \<and> field ''no'' j = Some (JNum (no r))))
   \<and> (\<not> truthy (b_nama b) \<or> \<not> truthy (b_kategori b) \<longrightarrow>
        add_item f1 f2 uid b s = (Response 400 (message ''Nama and kategori required''), s))"
proof (intro conjI impI)
  assume ok: "add_item f1 f2 uid b s = (Response 200 j, s')"
  then obtain n where look: "add_lookup f1 b s = Pending n"
    and ins: "add_insert f2 uid b n s = (Response 200 j, s')"
    by (auto simp: add_item_def add_lookup_def message_def split: lookup.splits if_splits sum.splits)
  from add_lookup_cases [OF look]
  have n: "n = (case max_no (map no (inventory s)) of None \<Rightarrow> 1 | Some m \<Rightarrow> m + 1)" by simp
  have "n = (if inventory s = [] then 1 else Max (set (map no (inventory s))) + 1)"
  proof (cases "inventory s = []")
    case True
    with n show ?thesis by simp
  next
    case False
    then have "max_no (map no (inventory s)) = Some (Max (set (map no (inventory s))))"
      by (intro max_no_Max) simp
    with n False show ?thesis by simp
  qed
  with add_insert_ok [OF ins]
  show "\<exists>r. inventory s' = inventory s @ [r]
          \<and> no r = (if inventory s = [] then 1 else Max (set (map no (inventory s))) + 1)
          \<and> field ''no'' j = Some (JNum (no r))"
    by auto
next
  assume "\<not> truthy (b_nama b) \<or> \<not> truthy (b_kategori b)"
  then show "add_item f1 f2 uid b s = (Response 400 (message ''Nama and kategori required''), s)"
    by (auto simp: add_item_def add_lookup_def)
qed

theorem add_item_numbering_witness:
  "add_item None None 1 (entry ''C'' ''Printer'' None) shelf =
     (Response 200 (JObj [(''message'', JStr ''Item added''), (''id'', JNum 3), (''no'', JNum 6)]),
      shelf \<lparr> inventory := inventory shelf @ [row 3 6 ''C'' ''Printer'' None], next_item_id := 4 \<rparr>)
   \<and> (\<exists>r. inventory (shelf \<lparr> inventory := inventory shelf @ [row 3 6 ''C'' ''Printer'' None],
                               next_item_id := 4 \<rparr>)
             = inventory shelf @ [r] \<and> no r = 6)
   \<and> add_item None None 1 (entry ''C'' [] None) shelf =
       (Response 400 (message ''Nama and kategori required''), shelf)"
  using add_item_numbering [of None None 1 "entry ''C'' ''Printer'' None" shelf
      "JObj [(''message'', JStr ''Item added''), (''id'', JNum 3), (''no'', JNum 6)]"
      "shelf \<lparr> inventory := inventory shelf @ [row 3 6 ''C'' ''Printer'' None], next_item_id := 4 \<rparr>"]
    add_item_numbering [of None None 1 "entry ''C'' [] None" shelf]
  by (simp add: add_defs example_defs)

text \<open>
  C9. When the lookup of the greatest \<open>no\<close> fails, the handler does not read the error:
  it dereferences the missing result, a TypeError escapes the callback, and no response
  (in particular no 500 response) is sent. The tables are as before.
\<close>

theorem add_item_lookup_failure:
  "truthy (b_nama b) \<Longrightarrow> truthy (b_kategori b) \<Longrightarrow>
     add_item (Some e) f2 uid b s = (Uncaught ''TypeError'', s)"
  by (simp add: add_item_def add_lookup_def next_no_def select_max_no_def)

theorem add_item_lookup_failure_witness:
  "truthy (b_nama (entry ''C'' ''Printer'' None)) \<and> truthy (b_kategori (entry ''C'' ''Printer'' None))
   \<and> add_item (Some ''ECONNRESET'') None 1 (entry ''C'' ''Printer'' None) shelf
       = (Uncaught ''TypeError'', shelf)"
  using add_item_lookup_failure [of "entry ''C'' ''Printer'' None" "''ECONNRESET''" None 1 shelf]
  by (simp add: truthy_def entry_def)

section \<open>Requests in flight together\<close>

lemma max_no_upto: "max_no [1..int k] = (if k = 0 then None else Some (int k))"
proof (cases "k = 0")
  case True
  then show ?thesis by simp
next
  case False
  then have ne: "[1..int k] \<noteq> []" by (simp add: upto.simps)
  have "Max (set [1..int k]) = int k"
    using False by (intro Max_eqI) auto
  with max_no_Max [OF ne] False show ?thesis by simp
qed

lemma upto_snoc: "[1..int k] @ [int k + 1] = [1..int (Suc k)]"
  using upto_rec2 [of 1 "int k + 1"] by (simp add: add.commute)

lemma run_serial_from:
  assumes "\<forall>r \<in> set reqs. truthy (b_nama (snd r)) \<and> truthy (b_kategori (snd r))"
    and "length ts = length reqs"
    and "\<forall>i. k \<le> i \<and> i < length reqs \<longrightarrow> ts ! i = Queued"
    and "map no (inventory s) = [1..int k]"
    and "k \<le> length reqs"
  shows "map no (inventory (snd (run (concat (map (\<lambda>i. [i, i]) [k..<length reqs])) reqs ts s)))
           = [1..int (length reqs)]"
  using assms
proof (induction "length reqs - k" arbitrary: k ts s)
  case 0
  then show ?case by simp
next
  case (Suc m)
  then have k: "k < length reqs" by simp
  obtain uid b where r: "reqs ! k = (uid, b)" by (cases "reqs ! k")
  from k r Suc.prems(1) have valid: "truthy (b_nama b)" "truthy (b_kategori b)"
    by (metis nth_mem snd_conv)+
  have look: "add_lookup None b s = Pending (int k + 1)"
    using add_lookup_valid [OF valid, of s] Suc.prems(4) by (simp add: max_no_upto)
  obtain out s' where ins: "add_insert None uid b (int k + 1) s = (out, s')"
    by (cases "add_insert None uid b (int k + 1) s")
  have nos: "map no (inventory s') = [1..int (Suc k)]"
    using add_insert_valid [OF valid, of uid "int k + 1" s] ins Suc.prems(4) upto_snoc [of k]
    by simp
  let ?ts = "ts[k := Answered out]"
  have step2: "run (k # k # sched) reqs ts s = run sched reqs ?ts s'" for sched
    using k Suc.prems(2,3) r look ins by simp
  have "map no (inventory (snd (run (concat (map (\<lambda>i. [i, i]) [Suc k..<length reqs])) reqs ?ts s')))
           = [1..int (length reqs)]"
  proof (rule Suc.hyps(1))
    show "m = length reqs - Suc k" using Suc.hyps(2) by simp
    show "\<forall>r \<in> set reqs. truthy (b_nama (snd r)) \<and> truthy (b_kategori (snd r))"
      by (rule Suc.prems(1))
    show "length ?ts = length reqs" using Suc.prems(2) by simp
    show "\<forall>i. Suc k \<le> i \<and> i < length reqs \<longrightarrow> ?ts ! i = Queued" using Suc.prems(3) by simp
    show "map no (inventory s') = [1..int (Suc k)]" by (rule nos)
    show "Suc k \<le> length reqs" using k by simp
  qed
  moreover have "[k..<length reqs] = k # [Suc k..<length reqs]"
    using k by (simp add: upt_conv_Cons)
  ultimately show ?case using step2 by simp
qed

text \<open>
  C1, as the claim states it, fails: two adds on an empty catalog whose lookups both run
  before either insert both read an empty table, and both rows get \<open>no = 1\<close>.
\<close>

theorem interleaved_adds_counterexample:
  "map no (inventory (snd (concurrent_adds [0, 1, 0, 1]
      [(1, entry ''C'' ''Laptop A'' None), (1, entry ''C'' ''Laptop B'' None)] empty_db))) = [1, 1]"
  by (simp add: add_defs example_defs concurrent_adds_def)

text \<open>
  C1, amended. When N adds with \<open>nama\<close> and \<open>kategori\<close> given are served one after the
  other on an empty catalog (each request's lookup and insert run before the next request's
  lookup) and the store performs every query, the rows carry the numbers 1, 2, ..., N in
  this order: no duplicate and no gap.
\<close>

theorem serial_adds_numbering:
  assumes "\<forall>r \<in> set reqs. truthy (b_nama (snd r)) \<and> truthy (b_kategori (snd r))"
    and "inventory s = []"
  shows "map no (inventory (snd (concurrent_adds (serial (length reqs)) reqs s)))
           = [1..int (length reqs)]"
  unfolding concurrent_adds_def serial_def
  using assms by (intro run_serial_from) simp_all

theorem serial_adds_numbering_witness:
  "inventory empty_db = []
   \<and> map no (inventory (snd (concurrent_adds (serial 2)
      [(1, entry ''C'' ''Laptop A'' None), (1, entry ''C'' ''Laptop B'' None)] empty_db))) = [1, 2]"
  using serial_adds_numbering
    [of "[(1, entry ''C'' ''Laptop A'' None), (1, entry ''C'' ''Laptop B'' None)]" empty_db]
  by (simp add: add_defs example_defs concurrent_adds_def serial_def numeral_2_eq_2)

section \<open>Renaming and deleting a category\<close>

lemma trim_padded:
  assumes "\<forall>c \<in> set pre. is_space c" and "\<forall>c \<in> set post. is_space c"
    and "B \<noteq> []" and "\<not> is_space (hd B)" and "\<not> is_space (last B)"
  shows "trim (pre @ B @ post) = B"
proof -
  have "dropWhile is_space (pre @ B @ post) = dropWhile is_space (B @ post)"
    by (rule dropWhile_append2) (use assms(1) in simp)
  also have "\<dots> = B @ post"
    using assms(3,4) by (simp add: dropWhile_eq_self_iff)
  finally have front: "dropWhile is_space (pre @ B @ post) = B @ post" .
  have "dropWhile is_space (rev post @ rev B) = dropWhile is_space (rev B)"
    by (rule dropWhile_append2) (use assms(2) in simp)
  then have "dropWhile is_space (rev (B @ post)) = dropWhile is_space (rev B)"
    by simp
  also have "\<dots> = rev B"
    using assms(5) by (simp add: dropWhile_eq_self_iff hd_rev)
  finally show ?thesis
    using front by (simp add: trim_def)
qed

lemma trim_blank:
  assumes "\<forall>c \<in> set nn. is_space c"
  shows "trim nn = []"
proof -
  from assms have blank: "dropWhile is_space nn = []" by simp
  show ?thesis unfolding trim_def blank by simp
qed

lemma rename_category_unfold:
  assumes "nn \<noteq> []" and "trim nn = B" and "B \<noteq> []"
  shows "rename_category fa fb old (Some nn) s =
     (case fa of
        Some e \<Rightarrow> (Response 500 (message_error ''Error updating category'' e), s)
      | None \<Rightarrow>
          if old \<in> set (map name (categories s)) \<and> B \<noteq> old \<and> B \<in> set (map name (categories s))
          then (Response 500 (message_error ''Error updating category'' ''ER_DUP_ENTRY''), s)
          else (case fb of
                  Some e \<Rightarrow>
                    (Response 500 (message ''Error updating items''),
                     s\<lparr> categories :=
                          map (\<lambda>c. if name c = old then c\<lparr> name := B \<rparr> else c) (categories s) \<rparr>)
                | None \<Rightarrow>
                    (Response 200 (message ''Category updated successfully''),
                     s\<lparr> categories :=
                          map (\<lambda>c. if name c = old then c\<lparr> name := B \<rparr> else c) (categories s),
                        inventory :=
                          map (\<lambda>r. if kategori r = old then r\<lparr> kategori := B \<rparr> else r) (inventory s) \<rparr>)))"
  using assms
  by (auto simp: rename_category_def update_categories_def update_kategori_def
           split: option.splits)

text \<open>
  C2, as the claim states it, fails: when the store performs the registry update and
  then reports an error for the update of the items, the handler answers 500 and the
  registry keeps the new name \<open>B\<close> while the item still carries the old label \<open>A\<close>.
\<close>

theorem rename_category_partial_counterexample:
  "fst (rename_category None (Some ''ER_LOCK_DEADLOCK'') ''A'' (Some ''B'') shelf)
     = Response 500 (message ''Error updating items'')
   \<and> map name (categories (snd (rename_category None (Some ''ER_LOCK_DEADLOCK'') ''A'' (Some ''B'') shelf)))
       = [''B'', ''C'']
   \<and> map kategori (inventory (snd (rename_category None (Some ''ER_LOCK_DEADLOCK'') ''A'' (Some ''B'') shelf)))
       = [''A'', ''C'']"
  by (simp add: rename_defs example_defs new_item_def)

text \<open>
  C2, amended. A rename is two writes, the second sent after the first has succeeded,
  with no rollback. An absent or blank new name is answered 400 and nothing is written.
  Otherwise let \<open>B\<close> be the new name without the white space around it.
  \<^item> If the store fails the registry update, or refuses it because another entry is
    already named \<open>B\<close>, the answer is 500 and neither the registry nor any item changes.
  \<^item> If the store performs both updates, the answer is 200, the registry entry named
    \<open>old\<close> is named \<open>B\<close> and every item labelled \<open>old\<close> is labelled \<open>B\<close>.
  \<^item> If the store performs the registry update and fails the update of the items, the
    answer is 500 ``Error updating items'': the registry entry is named \<open>B\<close> and every
    item keeps its label.
\<close>

theorem rename_category_two_writes:
  "(newName = None \<or> (\<exists>nn. newName = Some nn \<and> (\<forall>c \<in> set nn. is_space c)) \<longrightarrow>
      rename_category fa fb old newName s = (Response 400 (message ''New category name required''), s))
   \<and> ((\<forall>c \<in> set pre. is_space c) \<and> (\<forall>c \<in> set post. is_space c)
        \<and> B \<noteq> [] \<and> \<not> is_space (hd B) \<and> \<not> is_space (last B) \<longrightarrow>
      (\<forall>e. fa = Some e \<longrightarrow>
         rename_category fa fb old (Some (pre @ B @ post)) s =
           (Response 500 (message_error ''Error updating category'' e), s))
      \<and> (fa = None \<and> old \<in> set (map name (categories s)) \<and> B \<noteq> old
            \<and> B \<in> set (map name (categories s)) \<longrightarrow>
         (\<exists>e. rename_category fa fb old (Some (pre @ B @ post)) s =
           (Response 500 (message_error ''Error updating category'' e), s)))
      \<and> (fa = None \<and> \<not> (old \<in> set (map name (categories s)) \<and> B \<noteq> old
                          \<and> B \<in> set (map name (categories s))) \<and> fb = None \<longrightarrow>
         rename_category fa fb old (Some (pre @ B @ post)) s =
           (Response 200 (message ''Category updated successfully''),
            s\<lparr> categories :=
                 map (\<lambda>c. if name c = old then c\<lparr> name := B \<rparr> else c) (categories s),
               inventory :=
                 map (\<lambda>r. if kategori r = old then r\<lparr> kategori := B \<rparr> else r) (inventory s) \<rparr>))
      \<and> (\<forall>e. fa = None \<and> \<not> (old \<in> set (map name (categories s)) \<and> B \<noteq> old
                          \<and> B \<in> set (map name (categories s))) \<and> fb = Some e \<longrightarrow>
         rename_category fa fb old (Some (pre @ B @ post)) s =
           (Response 500 (message ''Error updating items''),
            s\<lparr> categories :=
                 map (\<lambda>c. if name c = old then c\<lparr> name := B \<rparr> else c) (categories s) \<rparr>)))"
  (is "?blank \<and> (?padded \<longrightarrow> ?cases)")
proof (rule conjI)
  show ?blank
    by (auto simp: rename_category_def trim_blank)
  show "?padded \<longrightarrow> ?cases"
  proof
    assume padded: ?padded
    then have t: "trim (pre @ B @ post) = B" by (intro trim_padded) simp_all
    from padded have ne: "pre @ B @ post \<noteq> []" and B: "B \<noteq> []" by simp_all
    from rename_category_unfold [OF ne t B, of fa fb old s]
    show ?cases by (auto split: option.splits)
  qed
qed

theorem rename_category_two_writes_witness:
  "is_space (CHR 0xA0) \<and> is_space (CHR 0x20) \<and> \<not> is_space (CHR ''B'')
   \<and> rename_category None (Some ''ER_LOCK_DEADLOCK'') ''A'' (Some ([CHR 0xA0] @ ''B'' @ '' '')) shelf =
       (Response 500 (message ''Error updating items''),
        shelf\<lparr> categories := [\<lparr> category_id = 1, name = ''B'' \<rparr>, \<lparr> category_id = 2, name = ''C'' \<rparr>] \<rparr>)
   \<and> rename_category None None ''A'' (Some ([CHR 0xA0] @ ''B'' @ '' '')) shelf =
       (Response 200 (message ''Category updated successfully''),
        shelf\<lparr> categories := [\<lparr> category_id = 1, name = ''B'' \<rparr>, \<lparr> category_id = 2, name = ''C'' \<rparr>],
               inventory := [row 1 1 ''B'' ''Laptop A'' None, row 2 5 ''C'' ''Monitor'' (Some ''null'')] \<rparr>)
   \<and> rename_category (Some ''ECONNRESET'') None ''A'' (Some ([CHR 0xA0] @ ''B'' @ '' '')) shelf =
       (Response 500 (message_error ''Error updating category'' ''ECONNRESET''), shelf)
   \<and> rename_category None None ''A'' (Some [CHR 0xA0, CHR 0x20]) shelf =
       (Response 400 (message ''New category name required''), shelf)"
  using rename_category_two_writes [where pre = "[CHR 0xA0]" and B = "''B''" and post = "'' ''"
          and fa = None and fb = "Some ''ER_LOCK_DEADLOCK''" and old = "''A''" and s = shelf
          and newName = "Some [CHR 0xA0, CHR 0x20]"]
        rename_category_two_writes [where pre = "[CHR 0xA0]" and B = "''B''" and post = "'' ''"
          and fa = None and fb = None and old = "''A''" and s = shelf
          and newName = "Some [CHR 0xA0, CHR 0x20]"]
        rename_category_two_writes [where pre = "[CHR 0xA0]" and B = "''B''" and post = "'' ''"
          and fa = "Some ''ECONNRESET''" and fb = None and old = "''A''" and s = shelf
          and newName = None]
  by (simp add: is_space_def example_defs new_item_def)

text \<open>
  C4. In a state whose registry holds the name \<open>A\<close>, a rename of \<open>A\<close> to a different name
  \<open>B\<close> (sent with or without white space around it) that answers 200 leaves a state in
  which every item that was labelled \<open>A\<close> is labelled \<open>B\<close> and is otherwise as before,
  every other item is as before, the registry holds \<open>B\<close>, and the registry no longer
  holds \<open>A\<close>.
\<close>

theorem rename_category_relabels:
  assumes "old \<in> set (map name (categories s))"
    and "rename_category fa fb old (Some (pre @ B @ post)) s = (Response 200 j, s')"
    and "\<forall>c \<in> set pre. is_space c" and "\<forall>c \<in> set post. is_space c"
    and "B \<noteq> []" and "\<not> is_space (hd B)" and "\<not> is_space (last B)"
    and "B \<noteq> old"
  shows "inventory s' = map (\<lambda>r. if kategori r = old then r\<lparr> kategori := B \<rparr> else r) (inventory s)
       \<and> B \<in> set (map name (categories s'))
       \<and> old \<notin> set (map name (categories s'))"
proof -
  have t: "trim (pre @ B @ post) = B"
    using assms(3-7) by (rule trim_padded)
  have ne: "pre @ B @ post \<noteq> []" using assms(5) by simp
  from assms(2) rename_category_unfold [OF ne t assms(5), of fa fb old s]
  have s': "s' = s\<lparr> categories :=
                      map (\<lambda>c. if name c = old then c\<lparr> name := B \<rparr> else c) (categories s),
                    inventory :=
                      map (\<lambda>r. if kategori r = old then r\<lparr> kategori := B \<rparr> else r) (inventory s) \<rparr>"
    by (auto simp: message_def message_error_def split: option.splits if_splits)
  have "B \<in> set (map name (map (\<lambda>c. if name c = old then c\<lparr> name := B \<rparr> else c) (categories s)))"
    using assms(1) by force
  moreover
  have "old \<notin> set (map name (map (\<lambda>c. if name c = old then c\<lparr> name := B \<rparr> else c) (categories s)))"
    using assms(8) by (auto split: if_splits)
  ultimately show ?thesis using s' by simp
qed

theorem rename_category_relabels_witness:
  "''A'' \<in> set (map name (categories shelf))
   \<and> is_space (CHR 0xA0) \<and> is_space (CHR 0x20) \<and> is_space (CHR 0x09) \<and> \<not> is_space (CHR ''B'')
   \<and> rename_category None None ''A'' (Some ([CHR 0xA0, CHR 0x20] @ ''B'' @ [CHR 0x09])) shelf =
       (Response 200 (message ''Category updated successfully''),
        shelf\<lparr> categories := [\<lparr> category_id = 1, name = ''B'' \<rparr>, \<lparr> category_id = 2, name = ''C'' \<rparr>],
               inventory := [row 1 1 ''B'' ''Laptop A'' None, row 2 5 ''C'' ''Monitor'' (Some ''null'')] \<rparr>)
   \<and> ''B'' \<in> set (map name (categories
        (shelf\<lparr> categories := [\<lparr> category_id = 1, name = ''B'' \<rparr>, \<lparr> category_id = 2, name = ''C'' \<rparr>],
               inventory := [row 1 1 ''B'' ''Laptop A'' None, row 2 5 ''C'' ''Monitor'' (Some ''null'')] \<rparr>)))
   \<and> ''A'' \<notin> set (map name (categories
        (shelf\<lparr> categories := [\<lparr> category_id = 1, name = ''B'' \<rparr>, \<lparr> category_id = 2, name = ''C'' \<rparr>],
               inventory := [row 1 1 ''B'' ''Laptop A'' None, row 2 5 ''C'' ''Monitor'' (Some ''null'')] \<rparr>)))"
  using rename_category_relabels [where old = "''A''" and s = shelf and fa = None and fb = None
    and pre = "[CHR 0xA0, CHR 0x20]" and B = "''B''" and post = "[CHR 0x09]"
    and j = "message ''Category updated successfully''"
    and s' = "shelf\<lparr> categories := [\<lparr> category_id = 1, name = ''B'' \<rparr>, \<lparr> category_id = 2, name = ''C'' \<rparr>],
           inventory := [row 1 1 ''B'' ''Laptop A'' None, row 2 5 ''C'' ''Monitor'' (Some ''null'')] \<rparr>"]
  by (simp add: rename_defs example_defs new_item_def)

text \<open>
  C10. When the registry holds no entry with the old name, the new name \<open>B\<close> (sent with
  or without white space around it) is not blank and the store performs both statements,
  the rename answers 200, the registry is as before, and every item labelled with the
  old name is labelled \<open>B\<close>.
\<close>

theorem rename_absent_category:
  assumes "old \<notin> set (map name (categories s))"
    and "\<forall>c \<in> set pre. is_space c" and "\<forall>c \<in> set post. is_space c"
    and "B \<noteq> []" and "\<not> is_space (hd B)" and "\<not> is_space (last B)"
  shows "rename_category None None old (Some (pre @ B @ post)) s =
           (Response 200 (message ''Category updated successfully''),
            s\<lparr> inventory :=
                 map (\<lambda>r. if kategori r = old then r\<lparr> kategori := B \<rparr> else r) (inventory s) \<rparr>)"
proof -
  have t: "trim (pre @ B @ post) = B"
    using assms(2-6) by (rule trim_padded)
  have ne: "pre @ B @ post \<noteq> []" using assms(4) by simp
  have same: "map (\<lambda>c. if name c = old then c\<lparr> name := B \<rparr> else c) (categories s) = categories s"
    using assms(1) by (intro map_idI) auto
  show ?thesis
    using rename_category_unfold [OF ne t assms(4), of None None old s] assms(1) same by simp
qed

theorem rename_absent_category_witness:
  "''A'' \<notin> set (map name (categories (shelf\<lparr> categories := [\<lparr> category_id = 2, name = ''C'' \<rparr>] \<rparr>)))
   \<and> is_space (CHR 0xA0) \<and> is_space (CHR 0x20) \<and> \<not> is_space (CHR ''B'')
   \<and> rename_category None None ''A'' (Some ([CHR 0xA0] @ ''B'' @ '' ''))
        (shelf\<lparr> categories := [\<lparr> category_id = 2, name = ''C'' \<rparr>] \<rparr>) =
       (Response 200 (message ''Category updated successfully''),
        shelf\<lparr> categories := [\<lparr> category_id = 2, name = ''C'' \<rparr>],
               inventory := [row 1 1 ''B'' ''Laptop A'' None, row 2 5 ''C'' ''Monitor'' (Some ''null'')] \<rparr>)"
  using rename_absent_category [where old = "''A''"
    and s = "shelf\<lparr> categories := [\<lparr> category_id = 2, name = ''C'' \<rparr>] \<rparr>"
    and pre = "[CHR 0xA0]" and B = "''B''" and post = "'' ''"]
  by (simp add: rename_defs example_defs new_item_def)

text \<open>
  C8. Deleting category \<open>A\<close> leaves every inventory row as it was, whatever its label.
  When the store performs the statement, the registry loses exactly the entries named
  \<open>A\<close>, and the category list is the former list without \<open>A\<close>.
\<close>

theorem delete_category_frame:
  "inventory (snd (delete_category f nm s)) = inventory s
   \<and> (f = None \<longrightarrow>
        categories (snd (delete_category f nm s)) = filter (\<lambda>c. name c \<noteq> nm) (categories s)
      \<and> list_categories None (snd (delete_category f nm s))
          = Response 200 (JArr (map JStr (filter (\<lambda>x. x \<noteq> nm) (sort (map name (categories s)))))))"
  by (auto simp: delete_category_def list_categories_def filter_sort filter_map comp_def
           split: option.splits)

theorem delete_category_frame_witness:
  "delete_category None ''A'' shelf =
     (Response 200 (message ''Category deleted''),
      shelf\<lparr> categories := [\<lparr> category_id = 2, name = ''C'' \<rparr>] \<rparr>)
   \<and> inventory (snd (delete_category None ''A'' shelf)) = inventory shelf
   \<and> map kategori (inventory (snd (delete_category None ''A'' shelf))) = [''A'', ''C'']
   \<and> list_categories None (snd (delete_category None ''A'' shelf)) = Response 200 (JArr [JStr ''C''])"
  using delete_category_frame [of None "''A''" shelf]
  by (simp add: delete_category_def list_categories_def example_defs message_def new_item_def)

section \<open>Updating an item that does not exist\<close>

text \<open>
  C5, as the claim states it, fails: no row of the example catalog has id 7, and the
  update of id 7 answers 200 ``Item updated''.
\<close>

theorem update_item_absent_counterexample:
  "7 \<notin> set (map item_id (inventory shelf))
   \<and> update_item None 7 (entry ''C'' ''Printer'' None) shelf
       = (Response 200 (message ''Item updated''), shelf)"
  by (simp add: update_item_def update_inventory_def example_defs new_item_def)

text \<open>
  C5, amended. For an id that no row of the catalog has, the update leaves the state as
  it was. The handler makes no check that a row was matched: when the store performs the
  statement the answer is 200 ``Item updated'', and when the store reports an error the
  answer is 500.
\<close>

theorem update_item_absent:
  assumes "i \<notin> set (map item_id (inventory s))"
  shows "snd (update_item f i b s) = s
       \<and> (f = None \<longrightarrow> fst (update_item f i b s) = Response 200 (message ''Item updated''))
       \<and> (\<forall>e. f = Some e \<longrightarrow>
             fst (update_item f i b s) = Response 500 (message_error ''Error updating item'' e))"
proof -
  have "filter (\<lambda>r. item_id r = i) (inventory s) = []"
    using assms by (auto simp: filter_empty_conv)
  then show ?thesis
    by (simp add: update_item_def update_inventory_def split: option.splits)
qed

theorem update_item_absent_witness:
  "7 \<notin> set (map item_id (inventory shelf))
   \<and> snd (update_item None 7 (entry ''C'' ''Printer'' None) shelf) = shelf
   \<and> fst (update_item None 7 (entry ''C'' ''Printer'' None) shelf)
       = Response 200 (message ''Item updated'')"
  using update_item_absent [of 7 shelf None "entry ''C'' ''Printer'' None"]
  by (simp add: example_defs new_item_def)

section \<open>Statistics\<close>

lemma stats_total:
  "field ''total'' (body (stats None None None s))
     = Some (JNum (count_elements (body (list_items None s))))"
  by (simp add: stats_def select_count_def select_by_status_def select_by_kategori_def
        list_items_def field_def body_def count_elements_def split: list.splits)

text \<open>
  C6. The total is the number of listed items (\<open>stats_total\<close>), but the counts by status
  do not always add up to it. After two adds, one item without a status and one whose
  status is the string \<^verbatim>\<open>null\<close>, the list has 2 items and the total is 2; the group of
  NULL and the group of \<^verbatim>\<open>"null"\<close> are written to the same key of \<open>byStatus\<close>, which is
  left with the single count 1.
\<close>

theorem stats_null_status_collision:
  "count_elements (body (list_items None two_items)) = 2
   \<and> field ''total'' (body (stats None None None two_items)) = Some (JNum 2)
   \<and> field ''byStatus'' (body (stats None None None two_items)) = Some (JObj [(''null'', JNum 1)])
   \<and> sum_values (field ''byStatus'' (body (stats None None None two_items))) = 1"
  by (simp add: stats_defs two_items_def add_defs example_defs)

section \<open>Login\<close>

lemma filter_unique:
  "distinct (map f xs) \<Longrightarrow> x \<in> set xs \<Longrightarrow> filter (\<lambda>y. f y = f x) xs = [x]"
proof (induction xs)
  case Nil
  then show ?case by simp
next
  case (Cons a xs)
  show ?case
  proof (cases "x = a")
    case True
    from Cons.prems(1) have "f a \<notin> f ` set xs" by simp
    then have "\<forall>y \<in> set xs. f y \<noteq> f a" by (metis imageI)
    with True have "filter (\<lambda>y. f y = f x) xs = []"
      by (simp add: filter_empty_conv)
    with True show ?thesis by simp
  next
    case False
    with Cons.prems have "x \<in> set xs" and "f a \<noteq> f x" by auto
    with Cons show ?thesis by simp
  qed
qed

text \<open>
  C7. Usernames are unique in the users table. For every stored user, a login under that
  user's name with a password that \<open>compareSync\<close> accepts against the stored hash answers
  200 with the token signed over exactly the user's id, username and email, and with the
  user object of these three fields (the hash is not among them). With a password that
  \<open>compareSync\<close> rejects, or none, the answer is 400 and carries no token.
\<close>

theorem login_issues_token:
  assumes "distinct (map username (users s))" and "u \<in> set (users s)" and "username u \<noteq> []"
  shows "(p \<noteq> [] \<and> compareSync p (password u) \<longrightarrow>
            login compareSync sign secret None (Some (username u)) (Some p) s =
              Response 200
                (JObj [(''message'', JStr ''Login successful''),
                       (''token'', JStr (sign (JObj [(''id'', JNum (user_id u)),
                                                     (''username'', JStr (username u)),
                                                     (''email'', JStr (email u))]) secret ''24h'')),
                       (''user'', JObj [(''id'', JNum (user_id u)),
                                        (''username'', JStr (username u)),
                                        (''email'', JStr (email u))])]))
       \<and> ((\<forall>q. pw = Some q \<longrightarrow> \<not> compareSync q (password u)) \<longrightarrow>
            code (login compareSync sign secret f (Some (username u)) pw s) = Some 400
          \<and> field ''token'' (body (login compareSync sign secret f (Some (username u)) pw s)) = None)"
proof -
  have one: "filter (\<lambda>v. username v = username u) (users s) = [u]"
    using assms(1,2) by (rule filter_unique)
  show ?thesis
  proof (intro conjI impI)
    assume "p \<noteq> [] \<and> compareSync p (password u)"
    with one assms(3)
    show "login compareSync sign secret None (Some (username u)) (Some p) s =
              Response 200
                (JObj [(''message'', JStr ''Login successful''),
                       (''token'', JStr (sign (JObj [(''id'', JNum (user_id u)),
                                                     (''username'', JStr (username u)),
                                                     (''email'', JStr (email u))]) secret ''24h'')),
                       (''user'', JObj [(''id'', JNum (user_id u)),
                                        (''username'', JStr (username u)),
                                        (''email'', JStr (email u))])])"
      by (simp add: login_def select_user_def claims_def)
  next
    assume wrong: "\<forall>q. pw = Some q \<longrightarrow> \<not> compareSync q (password u)"
    with one show "code (login compareSync sign secret f (Some (username u)) pw s) = Some 400"
      by (simp add: login_def select_user_def code_def message_def split: option.splits)
    from wrong one
    show "field ''token'' (body (login compareSync sign secret f (Some (username u)) pw s)) = None"
      by (simp add: login_def select_user_def field_def body_def message_def split: option.splits)
  qed
qed

theorem login_issues_token_witness:
  "distinct (map username (users shelf)) \<and> hd (users shelf) \<in> set (users shelf)
   \<and> username (hd (users shelf)) \<noteq> []
   \<and> login (\<lambda>p h. h = ''$2a$10$hash'' \<and> p = ''rahasia'') (\<lambda>payload k e. ''signed'')
        ''your_secret_key'' None (Some ''sari'') (Some ''rahasia'') shelf
     = Response 200 (JObj [(''message'', JStr ''Login successful''), (''token'', JStr ''signed''),
          (''user'', JObj [(''id'', JNum 1), (''username'', JStr ''sari''),
                           (''email'', JStr ''sari@example.org'')])])
   \<and> code (login (\<lambda>p h. h = ''$2a$10$hash'' \<and> p = ''rahasia'') (\<lambda>payload k e. ''signed'')
        ''your_secret_key'' None (Some ''sari'') (Some ''salah'') shelf) = Some 400"
  using login_issues_token [of shelf "hd (users shelf)" "''rahasia''"
          "\<lambda>p h. h = ''$2a$10$hash'' \<and> p = ''rahasia''" "\<lambda>payload k e. ''signed''"
          "''your_secret_key''" "Some ''salah''" None]
  by (simp add: example_defs)

end
